theory Spec2Isabelle
  imports Complex_Main "HOL-Library.Product_Lexorder"
begin

section \<open>Floating-point columns\<close>

text \<open>
  The tables of \<^verbatim>\<open>04_skill_portability.py\<close> hold numpy floats. A float is modelled by the
  real number it stands for, extended with the three special values that the code can
  produce by dividing by zero or taking the logarithm of zero: the two infinities and NaN.
  Rounding, overflow, underflow and the sign of zero are not modelled.
\<close>

datatype fval = Fin real | PosInf | NegInf | NaN

fun fneg :: "fval \<Rightarrow> fval" where
  "fneg (Fin x) = Fin (- x)"
| "fneg PosInf = NegInf"
| "fneg NegInf = PosInf"
| "fneg NaN = NaN"

fun fadd :: "fval \<Rightarrow> fval \<Rightarrow> fval" where
  "fadd (Fin a) (Fin b) = Fin (a + b)"
| "fadd (Fin a) PosInf = PosInf"
| "fadd (Fin a) NegInf = NegInf"
| "fadd PosInf (Fin b) = PosInf"
| "fadd PosInf PosInf = PosInf"
| "fadd NegInf (Fin b) = NegInf"
| "fadd NegInf NegInf = NegInf"
| "fadd PosInf NegInf = NaN"
| "fadd NegInf PosInf = NaN"
| "fadd NaN y = NaN"
| "fadd x NaN = NaN"

definition fsub :: "fval \<Rightarrow> fval \<Rightarrow> fval" where
  "fsub x y = fadd x (fneg y)"

fun fmul :: "fval \<Rightarrow> fval \<Rightarrow> fval" where
  "fmul (Fin a) (Fin b) = Fin (a * b)"
| "fmul (Fin a) PosInf = (if a = 0 then NaN else if 0 < a then PosInf else NegInf)"
| "fmul (Fin a) NegInf = (if a = 0 then NaN else if 0 < a then NegInf else PosInf)"
| "fmul PosInf (Fin b) = (if b = 0 then NaN else if 0 < b then PosInf else NegInf)"
| "fmul NegInf (Fin b) = (if b = 0 then NaN else if 0 < b then NegInf else PosInf)"
| "fmul PosInf PosInf = PosInf"
| "fmul NegInf NegInf = PosInf"
| "fmul PosInf NegInf = NegInf"
| "fmul NegInf PosInf = NegInf"
| "fmul NaN y = NaN"
| "fmul x NaN = NaN"

text \<open>numpy division: a finite nonzero value over zero is an infinity, zero over zero is NaN.\<close>

fun fdiv :: "fval \<Rightarrow> fval \<Rightarrow> fval" where
  "fdiv (Fin a) (Fin b) =
     (if b = 0 then (if a = 0 then NaN else if 0 < a then PosInf else NegInf)
      else Fin (a / b))"
| "fdiv (Fin a) PosInf = Fin 0"
| "fdiv (Fin a) NegInf = Fin 0"
| "fdiv PosInf (Fin b) = (if 0 \<le> b then PosInf else NegInf)"
| "fdiv NegInf (Fin b) = (if 0 \<le> b then NegInf else PosInf)"
| "fdiv PosInf PosInf = NaN"
| "fdiv PosInf NegInf = NaN"
| "fdiv NegInf PosInf = NaN"
| "fdiv NegInf NegInf = NaN"
| "fdiv NaN y = NaN"
| "fdiv x NaN = NaN"

text \<open>\<^verbatim>\<open>np.log\<close>: minus infinity at zero, NaN below zero.\<close>

fun flog :: "fval \<Rightarrow> fval" where
  "flog (Fin a) = (if a < 0 then NaN else if a = 0 then NegInf else Fin (ln a))"
| "flog PosInf = PosInf"
| "flog NegInf = NaN"
| "flog NaN = NaN"

text \<open>The exceptions that the modelled statements can raise.\<close>

datatype error = ValueError | TypeError

section \<open>Feature/target builder: \<^verbatim>\<open>build_switching_regression_data\<close>\<close>

text \<open>
  The three CSV tables are the inputs: the switching matrix (one \<open>switch_row\<close> per line),
  the stayer counts (pairs of \<^verbatim>\<open>occ\<close> and \<^verbatim>\<open>weighted_stayers\<close>) and the skill matrix (an
  occupation code with its skill vector per line).
\<close>

record pair_key =
  occ_origin :: int
  occ_dest :: int

record switch_row = pair_key +
  weighted_switches :: real

type_synonym stayer_table = "(int \<times> real) list"
type_synonym skill_table = "(int \<times> real list) list"

record merged_row = switch_row +
  occ :: int
  weighted_stayers :: real

record pair_row = merged_row +
  switch_share :: fval
  log_switch_share :: real

definition skill_occs :: "skill_table \<Rightarrow> int set" where
  "skill_occs skills = set (map fst skills)"

text \<open>Lines 51--55: keep the rows whose occupations have skill data.\<close>

definition filter_switches :: "skill_table \<Rightarrow> switch_row list \<Rightarrow> switch_row list" where
  "filter_switches skills switches =
     filter (\<lambda>r. occ_origin r \<in> skill_occs skills \<and> occ_dest r \<in> skill_occs skills) switches"

definition filter_stayers :: "skill_table \<Rightarrow> stayer_table \<Rightarrow> stayer_table" where
  "filter_stayers skills stayers = filter (\<lambda>(c, w). c \<in> skill_occs skills) stayers"

text \<open>Lines 58--60: the inner join of the switches with the stayer counts of the origin.\<close>

definition merge_row :: "switch_row \<Rightarrow> int \<times> real \<Rightarrow> merged_row" where
  "merge_row r st = switch_row.extend r (merged_row.fields (fst st) (snd st))"

definition merge_stayers :: "switch_row list \<Rightarrow> stayer_table \<Rightarrow> merged_row list" where
  "merge_stayers switches stayers =
     concat (map (\<lambda>r. map (merge_row r) (filter (\<lambda>(c, w). c = occ_origin r) stayers)) switches)"

definition merged :: "switch_row list \<Rightarrow> stayer_table \<Rightarrow> skill_table \<Rightarrow> merged_row list" where
  "merged switches stayers skills =
     merge_stayers (filter_switches skills switches) (filter_stayers skills stayers)"

text \<open>
  Lines 64--66: the smallest positive \<^verbatim>\<open>weighted_switches\<close> of the merged table; the
  minimum of an empty pandas selection is NaN.
\<close>

definition min_nonzero :: "merged_row list \<Rightarrow> fval" where
  "min_nonzero m =
     (case filter (\<lambda>w. 0 < w) (map weighted_switches m) of
        [] \<Rightarrow> NaN
      | w # ws \<Rightarrow> Fin (fold min ws w))"

text \<open>
  Lines 68--69: the share, and where the share is zero the floor over the row's own stayers.
\<close>

definition switch_share_of :: "fval \<Rightarrow> merged_row \<Rightarrow> fval" where
  "switch_share_of mn r =
     (let s = fdiv (Fin (weighted_switches r)) (Fin (weighted_stayers r))
      in if s = Fin 0 then fdiv mn (Fin (weighted_stayers r)) else s)"

text \<open>Line 70.\<close>

definition log_switch_share_of :: "fval \<Rightarrow> merged_row \<Rightarrow> fval" where
  "log_switch_share_of mn r = flog (switch_share_of mn r)"

text \<open>
  Lines 73--74: self-pairs go, then every row whose logarithm is not finite. A row that
  stays has a finite logarithm, which the result row holds as a real.
\<close>

definition finite_row :: "fval \<Rightarrow> merged_row \<Rightarrow> pair_row option" where
  "finite_row mn r =
     (case log_switch_share_of mn r of
        Fin x \<Rightarrow> Some (merged_row.extend r (pair_row.fields (switch_share_of mn r) x))
      | PosInf \<Rightarrow> None
      | NegInf \<Rightarrow> None
      | NaN \<Rightarrow> None)"

definition build_rows :: "merged_row list \<Rightarrow> pair_row list" where
  "build_rows m =
     List.map_filter (finite_row (min_nonzero m))
       (filter (\<lambda>r. occ_origin r \<noteq> occ_dest r) m)"

text \<open>
  The function has no \<^verbatim>\<open>raise\<close> and no statement that fails on an empty table (the
  minimum and maximum printed at line 79 are NaN there), so it always returns.
\<close>

definition build_switching_regression_data ::
  "switch_row list \<Rightarrow> stayer_table \<Rightarrow> skill_table \<Rightarrow> pair_row list \<times> skill_table" where
  "build_switching_regression_data switches stayers skills =
     (build_rows (merged switches stayers skills), skills)"

section \<open>Fixed-effect residualizer: \<^verbatim>\<open>step1_ols_residualize\<close>\<close>

text \<open>
  \<^verbatim>\<open>groupby(keys).transform("mean")\<close>: every row receives the mean of the rows that share
  its key.
\<close>

definition group_values :: "int list \<Rightarrow> real list \<Rightarrow> int \<Rightarrow> real list" where
  "group_values keys v k = map snd (filter (\<lambda>(k', x). k' = k) (zip keys v))"

definition group_mean :: "int list \<Rightarrow> real list \<Rightarrow> int \<Rightarrow> real" where
  "group_mean keys v k = sum_list (group_values keys v k) / real (length (group_values keys v k))"

definition transform_mean :: "int list \<Rightarrow> real list \<Rightarrow> real list" where
  "transform_mean keys v = map (group_mean keys v) keys"

text \<open>Lines 106--109 and 111--114: subtract the group means.\<close>

definition demean :: "int list \<Rightarrow> real list \<Rightarrow> real list" where
  "demean keys v = map2 (-) v (transform_mean keys v)"

text \<open>One turn of the loop body: by origin, then by destination.\<close>

definition demean_pass :: "int list \<Rightarrow> int list \<Rightarrow> real list \<Rightarrow> real list" where
  "demean_pass origins dests r = demean dests (demean origins r)"

text \<open>
  Line 117: \<^verbatim>\<open>np.max(np.abs(residuals - residuals_old))\<close>; the maximum of an empty array
  raises \<^verbatim>\<open>ValueError\<close>.
\<close>

definition max_abs_change :: "real list \<Rightarrow> real list \<Rightarrow> error + real" where
  "max_abs_change r r_old =
     (case map2 (\<lambda>a b. \<bar>a - b\<bar>) r r_old of
        [] \<Rightarrow> Inl ValueError
      | c # cs \<Rightarrow> Inr (fold max cs c))"

text \<open>
  Lines 103--118: the loop of at most \<open>n\<close> turns, left by \<^verbatim>\<open>break\<close> when the largest change
  is below \<open>1e-10\<close>. After the last turn the loop simply ends: no statement depends on
  whether the test ever succeeded.
\<close>

fun iterate_demean :: "nat \<Rightarrow> int list \<Rightarrow> int list \<Rightarrow> real list \<Rightarrow> error + real list" where
  "iterate_demean 0 origins dests r = Inr r"
| "iterate_demean (Suc n) origins dests r =
     (let r' = demean_pass origins dests r
      in case max_abs_change r' r of
           Inl e \<Rightarrow> Inl e
         | Inr c \<Rightarrow> if c < 1 / 10 ^ 10 then Inr r' else iterate_demean n origins dests r')"

text \<open>
  Whether the loop of \<open>n\<close> turns is left by \<^verbatim>\<open>break\<close>, that is, whether the test of line
  117 succeeds in one of the turns. The code keeps no such flag; the function serves to
  state what happens when the cap is reached.
\<close>

fun left_by_break :: "nat \<Rightarrow> int list \<Rightarrow> int list \<Rightarrow> real list \<Rightarrow> bool" where
  "left_by_break 0 origins dests r = False"
| "left_by_break (Suc n) origins dests r =
     (let r' = demean_pass origins dests r
      in case max_abs_change r' r of
           Inl e \<Rightarrow> False
         | Inr c \<Rightarrow> c < 1 / 10 ^ 10 \<or> left_by_break n origins dests r')"

record resid_row = pair_row +
  residual :: real

definition mean :: "real list \<Rightarrow> real" where
  "mean y = sum_list y / real (length y)"

definition ss_total :: "real list \<Rightarrow> real" where
  "ss_total y = sum_list (map (\<lambda>v. (v - mean y) ^ 2) y)"

definition ss_resid :: "real list \<Rightarrow> real" where
  "ss_resid residuals = sum_list (map (\<lambda>v. v ^ 2) residuals)"

definition r2_fe :: "real list \<Rightarrow> real list \<Rightarrow> fval" where
  "r2_fe y residuals = fsub (Fin 1) (fdiv (Fin (ss_resid residuals)) (Fin (ss_total y)))"

definition with_residual :: "pair_row list \<Rightarrow> real list \<Rightarrow> resid_row list" where
  "with_residual switches residuals =
     map2 (\<lambda>r e. pair_row.extend r (resid_row.fields e)) switches residuals"

text \<open>
  The function returns the table with its new \<^verbatim>\<open>residual\<close> column and the R-squared of
  the fixed-effect model, and nothing else.
\<close>

definition step1_ols_residualize :: "pair_row list \<Rightarrow> error + (resid_row list \<times> fval)" where
  "step1_ols_residualize switches =
     (let y = map log_switch_share switches
      in case iterate_demean 50 (map occ_origin switches) (map occ_dest switches) y of
           Inl e \<Rightarrow> Inl e
         | Inr residuals \<Rightarrow> Inr (with_residual switches residuals, r2_fe y residuals))"

text \<open>
  The only warnings that the statements of the function can issue are numpy's
  \<^verbatim>\<open>RuntimeWarning\<close>s, for the division at line 126 when the total sum of squares is zero.
  The function itself never calls \<^verbatim>\<open>warnings.warn\<close>.
\<close>

datatype warning = RuntimeWarning

definition step1_issued_warnings :: "pair_row list \<Rightarrow> warning list" where
  "step1_issued_warnings switches =
     (if switches \<noteq> [] \<and> ss_total (map log_switch_share switches) = 0
      then [RuntimeWarning] else [])"

text \<open>Line 20, \<^verbatim>\<open>warnings.filterwarnings("ignore")\<close>: no issued warning is ever shown.\<close>

definition shown_warnings :: "warning list \<Rightarrow> warning list" where
  "shown_warnings issued = filter (\<lambda>w. False) issued"

text \<open>The part of \<^verbatim>\<open>main\<close> that runs before the learner (lines 275--278).\<close>

definition main_step1 ::
  "switch_row list \<Rightarrow> stayer_table \<Rightarrow> skill_table \<Rightarrow> error + (resid_row list \<times> fval)" where
  "main_step1 switches stayers skills =
     step1_ols_residualize (fst (build_switching_regression_data switches stayers skills))"

section \<open>Aggregator: \<^verbatim>\<open>compute_aggregate_portability\<close>\<close>

text \<open>
  Of the table that the learner returns, the aggregator reads the three columns selected
  at line 218; its second parameter, the skill table, is not used. The employment table
  and the table of titles are the two files it loads.
\<close>

record scored_row = pair_key +
  predicted_skill_portability :: real

record port_row = scored_row +
  portability_norm :: fval

record agg_row =
  occ2010 :: int
  aggregate_portability :: fval
  mean_pairwise_portability :: fval
  title :: "string option"

type_synonym emp_table = "(int \<times> real) list"
type_synonym title_table = "(int \<times> string) list"

text \<open>Line 215: a dict built from pairs keeps the last value of a repeated key.\<close>

definition emp_map :: "emp_table \<Rightarrow> int \<rightharpoonup> real" where
  "emp_map emp = map_of (rev emp)"

definition emp_get :: "emp_table \<Rightarrow> int \<Rightarrow> real" where
  "emp_get emp d = (case emp_map emp d of None \<Rightarrow> 0 | Some e \<Rightarrow> e)"

text \<open>Lines 219--222: min-max scaling over all pairs, with no test of the denominator.\<close>

definition min_max_norm :: "real list \<Rightarrow> fval list" where
  "min_max_norm ps =
     (case ps of
        [] \<Rightarrow> []
      | p # qs \<Rightarrow>
          (let mn = fold min qs p; mx = fold max qs p
           in map (\<lambda>x. fdiv (Fin (x - mn)) (Fin (mx - mn))) ps))"

definition port_table :: "scored_row list \<Rightarrow> port_row list" where
  "port_table switches =
     map2 (\<lambda>r s. scored_row.extend r (port_row.fields s)) switches
       (min_max_norm (map predicted_skill_portability switches))"

text \<open>\<^verbatim>\<open>groupby("occ_origin")\<close> visits the distinct origins in ascending order.\<close>

definition origins_of :: "port_row list \<Rightarrow> int list" where
  "origins_of port = sort (remdups (map occ_origin port))"

definition group_of :: "port_row list \<Rightarrow> int \<Rightarrow> port_row list" where
  "group_of port occ_o = filter (\<lambda>r. occ_origin r = occ_o) port"

text \<open>Lines 227--233: the two accumulators of the inner loop.\<close>

definition weigh_step :: "emp_table \<Rightarrow> port_row \<Rightarrow> fval \<times> real \<Rightarrow> fval \<times> real" where
  "weigh_step emp row acc =
     (let emp_d = emp_get emp (occ_dest row)
      in (fadd (fst acc) (fmul (portability_norm row) (Fin emp_d)), snd acc + emp_d))"

definition weigh :: "emp_table \<Rightarrow> port_row list \<Rightarrow> fval \<times> real" where
  "weigh emp grp = fold (weigh_step emp) grp (Fin 0, 0)"

text \<open>Lines 225--236: an origin gets an entry only if its total weight is positive.\<close>

definition agg_entry :: "emp_table \<Rightarrow> port_row list \<Rightarrow> int \<Rightarrow> (int \<times> fval) option" where
  "agg_entry emp port occ_o =
     (let (weighted_port, total_weight) = weigh emp (group_of port occ_o)
      in if 0 < total_weight then Some (occ_o, fdiv weighted_port (Fin total_weight))
         else None)"

definition agg_port :: "emp_table \<Rightarrow> port_row list \<Rightarrow> (int \<times> fval) list" where
  "agg_port emp port = List.map_filter (agg_entry emp port) (origins_of port)"

text \<open>Line 244: the pandas mean leaves NaN entries out and is NaN when nothing is left.\<close>

definition pd_mean :: "fval list \<Rightarrow> fval" where
  "pd_mean xs =
     (let v = filter (\<lambda>x. x \<noteq> NaN) xs
      in if v = [] then NaN else fdiv (fold (\<lambda>x s. fadd s x) v (Fin 0)) (Fin (real (length v))))"

definition mean_port :: "port_row list \<Rightarrow> int \<Rightarrow> fval" where
  "mean_port port occ_o = pd_mean (map portability_norm (group_of port occ_o))"

text \<open>
  Lines 238--252: the aggregate table, left-joined with the unweighted means (one row per
  origin of \<open>port\<close>) and with the titles (a missing title is left empty, a repeated one
  repeats the row).
\<close>

definition with_titles :: "title_table \<Rightarrow> int \<times> fval \<times> fval \<Rightarrow> agg_row list" where
  "with_titles titles row =
     (case row of (c, a, m) \<Rightarrow>
        (case filter (\<lambda>(c', t). c' = c) titles of
           [] \<Rightarrow> [\<lparr>occ2010 = c, aggregate_portability = a, mean_pairwise_portability = m,
                   title = None\<rparr>]
         | ts \<Rightarrow> map (\<lambda>(c', t). \<lparr>occ2010 = c, aggregate_portability = a,
                   mean_pairwise_portability = m, title = Some t\<rparr>) ts))"

definition agg_table :: "emp_table \<Rightarrow> title_table \<Rightarrow> port_row list \<Rightarrow> agg_row list" where
  "agg_table emp titles port =
     concat (map (\<lambda>(c, a). with_titles titles (c, a, mean_port port c)) (agg_port emp port))"

text \<open>
  Line 255: descending order of the aggregate, NaN last. (pandas does not promise the
  order of equal keys; the model keeps their order.)
\<close>

fun desc_key :: "fval \<Rightarrow> nat \<times> real" where
  "desc_key PosInf = (0, 0)"
| "desc_key (Fin x) = (1, - x)"
| "desc_key NegInf = (2, 0)"
| "desc_key NaN = (3, 0)"

definition sort_values :: "agg_row list \<Rightarrow> agg_row list" where
  "sort_values rows = sort_key (\<lambda>r. desc_key (aggregate_portability r)) rows"

text \<open>
  Lines 259--264 print the first and the last ten rows and slice each title; a missing
  title is a float there and the slice raises \<^verbatim>\<open>TypeError\<close>.
\<close>

definition printed_rows :: "agg_row list \<Rightarrow> agg_row list" where
  "printed_rows rows = take 10 rows @ drop (length rows - 10) rows"

definition compute_aggregate_portability ::
  "scored_row list \<Rightarrow> emp_table \<Rightarrow> title_table \<Rightarrow> error + (agg_row list \<times> port_row list)" where
  "compute_aggregate_portability switches emp titles =
     (let port = port_table switches;
          agg_df = sort_values (agg_table emp titles port)
      in if list_ex (\<lambda>r. title r = None) (printed_rows agg_df) then Inl TypeError
         else Inr (agg_df, port))"

section \<open>Example tables\<close>

text \<open>
  A merged table with a self-pair whose count is the smallest positive one, a pair without
  any switch and an ordinary pair.
\<close>

definition ex_self_row :: merged_row where
  "ex_self_row =
     \<lparr>occ_origin = 1, occ_dest = 1, weighted_switches = 5, occ = 1, weighted_stayers = 1000\<rparr>"

definition ex_zero_row :: merged_row where
  "ex_zero_row =
     \<lparr>occ_origin = 1, occ_dest = 2, weighted_switches = 0, occ = 1, weighted_stayers = 1000\<rparr>"

definition ex_merged :: "merged_row list" where
  "ex_merged =
     [ex_self_row, ex_zero_row,
      \<lparr>occ_origin = 2, occ_dest = 1, weighted_switches = 40, occ = 2, weighted_stayers = 500\<rparr>]"

text \<open>Input tables whose skill matrix shares no occupation with the switching matrix.\<close>

definition ex_switches :: "switch_row list" where
  "ex_switches = [\<lparr>occ_origin = 1, occ_dest = 2, weighted_switches = 100\<rparr>]"

definition ex_stayers :: stayer_table where
  "ex_stayers = [(1, 1000)]"

definition ex_skills_disjoint :: skill_table where
  "ex_skills_disjoint = [(7, [1 / 2])]"

text \<open>
  Predictions for two origins: the destinations of origin 1 have employment data, the
  only destination of origin 4 has none.
\<close>

definition ex_scored :: "scored_row list" where
  "ex_scored =
     [\<lparr>occ_origin = 1, occ_dest = 2, predicted_skill_portability = 1 / 5\<rparr>,
      \<lparr>occ_origin = 1, occ_dest = 3, predicted_skill_portability = 7 / 10\<rparr>,
      \<lparr>occ_origin = 4, occ_dest = 5, predicted_skill_portability = 1 / 2\<rparr>]"

definition ex_emp :: emp_table where
  "ex_emp = [(2, 5000), (3, 1000)]"

definition ex_titles :: title_table where
  "ex_titles = [(1, ''Chief executives''), (4, ''Surveyors'')]"

text \<open>A table whose predictions are all equal.\<close>

definition ex_flat :: "scored_row list" where
  "ex_flat =
     [\<lparr>occ_origin = 1, occ_dest = 2, predicted_skill_portability = 3 / 10\<rparr>,
      \<lparr>occ_origin = 1, occ_dest = 3, predicted_skill_portability = 3 / 10\<rparr>]"

text \<open>
  A pair of the builder's result with a given logarithm of the share (1000 stayers).
\<close>

definition pair_with_log :: "int \<Rightarrow> int \<Rightarrow> real \<Rightarrow> pair_row" where
  "pair_with_log c d l =
     \<lparr>occ_origin = c, occ_dest = d, weighted_switches = 1000 * exp l, occ = c,
      weighted_stayers = 1000, switch_share = Fin (exp l), log_switch_share = l\<rparr>"

text \<open>
  Pairs on a path of occupations, 1--10--2--20--3--30--4, on which the alternating
  subtraction shrinks the residuals by a quarter per turn only; \<open>slow_mode c\<close> is the
  shape of the residuals after each turn.
\<close>

definition slow_table :: "pair_row list" where
  "slow_table =
     map (\<lambda>(c, d, l). pair_with_log c d l)
       [(1, 10, - 4), (2, 10, - 2), (2, 20, - 5), (3, 20, - 1), (3, 30, - 4), (4, 30, - 2)]"

definition slow_mode :: "real \<Rightarrow> real list" where
  "slow_mode c = [- c, c, - 2 * c, 2 * c, - c, c]"


text \<open>
  A long path of occupations, 1--100000--2--100001--3-- ... --\<open>n + 1\<close>: destination
  \<open>100000 + i\<close> is reached from the origins \<open>i + 1\<close> and \<open>i + 2\<close>. The logarithms are chosen
  so that the origin means grow by \<open>1e-10\<close> from one origin to the next; \<open>path_residuals\<close>
  is the table's residual column after one turn of the loop.
\<close>

definition pairs_of :: "(nat \<Rightarrow> 'a) \<Rightarrow> (nat \<Rightarrow> 'a) \<Rightarrow> nat \<Rightarrow> 'a list" where
  "pairs_of a b n = concat (map (\<lambda>i. [a i, b i]) [0..<n])"





section \<open>Closed form of the scaling\<close>


section \<open>The builder\<close>

subsection \<open>The floor for pairs without switches\<close>

lemma min_nonzero_Min:
  assumes "\<exists>r \<in> set m. 0 < weighted_switches r"
  shows "min_nonzero m = Fin (Min {w \<in> weighted_switches ` set m. 0 < w})"
proof -
  let ?ws = "filter (\<lambda>w. 0 < w) (map weighted_switches m)"
  have set: "set ?ws = {w \<in> weighted_switches ` set m. 0 < w}" by auto
  from assms have "?ws \<noteq> []" by (auto simp: filter_empty_conv)
  then obtain w ws where eq: "?ws = w # ws" by (cases ?ws) auto
  have "fold min ws w = Min (set (w # ws))" by (simp only: Min.set_eq_fold)
  with eq set show ?thesis by (simp add: min_nonzero_def)
qed


lemma zero_switch_share:
  assumes "weighted_switches r = 0" "0 < weighted_stayers r" "0 < v"
  shows "switch_share_of (Fin v) r = Fin (v / weighted_stayers r)"
    and "log_switch_share_of (Fin v) r = Fin (ln (v / weighted_stayers r))"
proof -
  from assms have "0 < v / weighted_stayers r" by (intro divide_pos_pos)
  then show "switch_share_of (Fin v) r = Fin (v / weighted_stayers r)"
    and "log_switch_share_of (Fin v) r = Fin (ln (v / weighted_stayers r))"
    using assms
    by (simp_all add: switch_share_of_def log_switch_share_of_def Let_def not_less less_imp_le)
qed

lemma set_map_filter: "set (List.map_filter f xs) = {y. \<exists>x \<in> set xs. f x = Some y}"
  by (induction xs) (auto split: option.splits)

lemma build_rows_member:
  assumes "r \<in> set m" "occ_origin r \<noteq> occ_dest r" "finite_row (min_nonzero m) r = Some p"
  shows "p \<in> set (build_rows m)"
  using assms by (force simp: build_rows_def set_map_filter)




text \<open>
  Claim C10. The floor is the least positive \<^verbatim>\<open>weighted_switches\<close> of the merged table as
  it is before the self-pairs are removed: when a self-pair holds that least value, a
  cross-occupation pair without switches is returned with the self-pair's count over its
  own stayers.
\<close>

theorem floor_from_self_pair:
  assumes "s \<in> set m" and "occ_origin s = occ_dest s" and "0 < weighted_switches s"
    and "\<forall>r' \<in> set m. 0 < weighted_switches r' \<longrightarrow> weighted_switches s \<le> weighted_switches r'"
    and "r \<in> set m" and "occ_origin r \<noteq> occ_dest r"
    and "weighted_switches r = 0" and "0 < weighted_stayers r"
  shows "min_nonzero m = Fin (weighted_switches s)
         \<and> merged_row.extend r (pair_row.fields
              (Fin (weighted_switches s / weighted_stayers r))
              (ln (weighted_switches s / weighted_stayers r))) \<in> set (build_rows m)"
proof -
  let ?S = "{w \<in> weighted_switches ` set m. 0 < w}"
  have ex: "\<exists>r' \<in> set m. 0 < weighted_switches r'" using assms(1,3) by blast
  have "weighted_switches s \<in> ?S" using assms(1,3) by simp
  moreover have "\<forall>w \<in> ?S. weighted_switches s \<le> w" using assms(4) by auto
  ultimately have "Min ?S = weighted_switches s"
    by (intro Min_eqI) auto
  with min_nonzero_Min [OF ex] have mn: "min_nonzero m = Fin (weighted_switches s)" by simp
  have "finite_row (min_nonzero m) r =
      Some (merged_row.extend r (pair_row.fields (Fin (weighted_switches s / weighted_stayers r))
        (ln (weighted_switches s / weighted_stayers r))))"
    using zero_switch_share [OF assms(7,8,3)] by (simp add: finite_row_def mn)
  from build_rows_member [OF assms(5,6) this] mn show ?thesis by simp
qed

theorem floor_from_self_pair_witness:
  "min_nonzero ex_merged = Fin 5
   \<and> \<lparr>occ_origin = 1, occ_dest = 2, weighted_switches = 0, occ = 1, weighted_stayers = 1000,
       switch_share = Fin (5 / 1000), log_switch_share = ln (5 / 1000)\<rparr>
     \<in> set (build_rows ex_merged)"
proof -
  have "ex_self_row \<in> set ex_merged" "occ_origin ex_self_row = occ_dest ex_self_row"
    "0 < weighted_switches ex_self_row"
    "\<forall>r' \<in> set ex_merged. 0 < weighted_switches r'
        \<longrightarrow> weighted_switches ex_self_row \<le> weighted_switches r'"
    "ex_zero_row \<in> set ex_merged" "occ_origin ex_zero_row \<noteq> occ_dest ex_zero_row"
    "weighted_switches ex_zero_row = 0" "0 < weighted_stayers ex_zero_row"
    by (simp_all add: ex_merged_def ex_zero_row_def ex_self_row_def)
  from floor_from_self_pair [OF this] show ?thesis
    by (simp add: ex_zero_row_def ex_self_row_def merged_row.extend_def pair_row.fields_def)
qed

subsection \<open>Tables without common occupations\<close>

lemma merged_empty:
  assumes "skill_occs skills \<inter> occ_origin ` set switches \<inter> fst ` set stayers = {}"
  shows "merged switches stayers skills = []"
proof -
  have "filter (\<lambda>(c, w). c = occ_origin r) (filter_stayers skills stayers) = []"
    if "r \<in> set (filter_switches skills switches)" for r
  proof -
    from that have "occ_origin r \<in> skill_occs skills" "occ_origin r \<in> occ_origin ` set switches"
      by (auto simp: filter_switches_def)
    with assms have "occ_origin r \<notin> fst ` set stayers" by blast
    then have "\<forall>x \<in> set stayers. fst x \<noteq> occ_origin r" by force
    then show ?thesis by (auto simp: filter_empty_conv filter_stayers_def)
  qed
  then show ?thesis by (simp add: merged_def merge_stayers_def)
qed

text \<open>
  Claim C1, as the code has it. When no occupation is at once in the skill table, an origin
  of the switching matrix and in the stayer counts, the builder returns the empty pair
  table together with the skill table; it does not fail.
\<close>

theorem builder_returns_empty_table:
  assumes "skill_occs skills \<inter> occ_origin ` set switches \<inter> fst ` set stayers = {}"
  shows "build_switching_regression_data switches stayers skills = ([], skills)"
  by (simp add: build_switching_regression_data_def merged_empty [OF assms] build_rows_def)

theorem builder_returns_empty_table_witness:
  "build_switching_regression_data ex_switches ex_stayers ex_skills_disjoint
     = ([], ex_skills_disjoint)"
proof -
  have "skill_occs ex_skills_disjoint \<inter> occ_origin ` set ex_switches \<inter> fst ` set ex_stayers = {}"
    by (simp add: skill_occs_def ex_skills_disjoint_def ex_switches_def ex_stayers_def)
  from builder_returns_empty_table [OF this] show ?thesis .
qed

text \<open>
  Against claim C1 as stated: on the tables above the builder returns normally, and the
  run stops only in the residualizer, with the \<^verbatim>\<open>ValueError\<close> of numpy's maximum of an
  empty array.
\<close>

theorem builder_data_error_counterexample:
  "build_switching_regression_data ex_switches ex_stayers ex_skills_disjoint
     = ([], ex_skills_disjoint)
   \<and> main_step1 ex_switches ex_stayers ex_skills_disjoint = Inl ValueError"
  by (simp add: build_switching_regression_data_def merged_def merge_stayers_def
      filter_switches_def filter_stayers_def skill_occs_def build_rows_def main_step1_def
      step1_ols_residualize_def numeral_eq_Suc demean_pass_def demean_def transform_mean_def
      max_abs_change_def ex_skills_disjoint_def ex_switches_def ex_stayers_def)

section \<open>The residualizer\<close>

subsection \<open>Subtracting group means is a projection\<close>

lemma demean_zip:
  assumes "length keys = length v"
  shows "demean keys v = map (\<lambda>(k, x). x - group_mean keys v k) (zip keys v)"
proof -
  have "map2 (-) v (map g keys) = map (\<lambda>(k, x). x - g k) (zip keys v)" for g
    using assms by (induction keys v rule: list_induct2) simp_all
  then show ?thesis by (simp add: demean_def transform_mean_def)
qed

lemma length_demean: "length keys = length v \<Longrightarrow> length (demean keys v) = length v"
  by (simp add: demean_zip)










subsection \<open>The loop\<close>

lemmas pass_defs = demean_pass_def demean_def transform_mean_def group_mean_def group_values_def

lemma slow_first_pass:
  "demean_pass [1, 2, 2, 3, 3, 4] [10, 10, 20, 20, 30, 30] [- 4, - 2, - 5, - 1, - 4, - 2]
     = slow_mode (3 / 4)"
  by (simp add: pass_defs slow_mode_def)

lemma slow_mode_pass:
  "demean_pass [1, 2, 2, 3, 3, 4] [10, 10, 20, 20, 30, 30] (slow_mode c) = slow_mode (3 / 4 * c)"
  by (simp add: pass_defs slow_mode_def)

lemma slow_mode_change:
  "0 \<le> c \<Longrightarrow> max_abs_change (slow_mode (3 / 4 * c)) (slow_mode c) = Inr (c / 2)"
  by (simp add: max_abs_change_def slow_mode_def)

lemma slow_first_change:
  "max_abs_change (slow_mode (3 / 4)) [- 4, - 2, - 5, - 1, - 4, - 2] = Inr (7 / 2)"
  by (simp add: max_abs_change_def slow_mode_def)

lemma length_demean_pass:
  "length origins = length r \<Longrightarrow> length dests = length r
     \<Longrightarrow> length (demean_pass origins dests r) = length r"
  by (simp add: demean_pass_def length_demean)

lemma max_abs_change_Inr:
  assumes "length r' = length r" "r \<noteq> []"
  shows "\<exists>c. max_abs_change r' r = Inr c"
proof -
  from assms have "map2 (\<lambda>a b. \<bar>a - b\<bar>) r' r \<noteq> []" by (cases r'; cases r) auto
  then show ?thesis by (auto simp: max_abs_change_def split: list.splits)
qed








lemma slow_mode_iterate:
  assumes "2 / 10 ^ 10 \<le> c * (3 / 4) ^ n" "0 \<le> c"
  shows "iterate_demean n [1, 2, 2, 3, 3, 4] [10, 10, 20, 20, 30, 30] (slow_mode c)
           = Inr (slow_mode ((3 / 4) ^ n * c))
         \<and> \<not> left_by_break n [1, 2, 2, 3, 3, 4] [10, 10, 20, 20, 30, 30] (slow_mode c)"
  using assms
proof (induction n arbitrary: c)
  case 0
  then show ?case by simp
next
  case (Suc n)
  have "(3 / 4 :: real) ^ Suc n \<le> 1" by (intro power_le_one) simp_all
  then have "c * (3 / 4) ^ Suc n \<le> c * 1" using Suc.prems(2) by (intro mult_left_mono)
  with Suc.prems have big: "\<not> c / 2 < 1 / 10 ^ 10" by simp
  have "2 / 10 ^ 10 \<le> (3 / 4 * c) * (3 / 4) ^ n" "0 \<le> 3 / 4 * c"
    using Suc.prems by (simp_all add: mult.assoc mult.left_commute)
  from Suc.IH [OF this] have IH:
    "iterate_demean n [1, 2, 2, 3, 3, 4] [10, 10, 20, 20, 30, 30] (slow_mode (3 / 4 * c))
       = Inr (slow_mode ((3 / 4) ^ n * (3 / 4 * c)))"
    "\<not> left_by_break n [1, 2, 2, 3, 3, 4] [10, 10, 20, 20, 30, 30] (slow_mode (3 / 4 * c))"
    by blast+
  have e: "(3 / 4) ^ n * (3 / 4 * c) = (3 / 4) ^ Suc n * c" by simp
  show ?case
    unfolding iterate_demean.simps left_by_break.simps Let_def slow_mode_pass
      slow_mode_change [OF Suc.prems(2)] sum.case IH(1) e
    using big IH(2) by (simp only: if_False simp_thms)
qed

lemma iterate_not_left:
  assumes "\<not> left_by_break n origins dests r" "length origins = length r" "length dests = length r"
    "r \<noteq> []"
  shows "iterate_demean n origins dests r = Inr ((demean_pass origins dests ^^ n) r)"
  using assms
proof (induction n arbitrary: r)
  case 0
  then show ?case by simp
next
  case (Suc n)
  let ?r' = "demean_pass origins dests r"
  from Suc.prems have len: "length ?r' = length r" by (simp add: length_demean_pass)
  from max_abs_change_Inr [OF len Suc.prems(4)] obtain c where c: "max_abs_change ?r' r = Inr c" ..
  with Suc.prems(1) have no: "\<not> c < 1 / 10 ^ 10" "\<not> left_by_break n origins dests ?r'"
    by (simp_all add: Let_def)
  from Suc.prems len have "length origins = length ?r'" "length dests = length ?r'" "?r' \<noteq> []"
    by auto
  from Suc.IH [OF no(2) this] c no(1) show ?case
    by (simp add: Let_def funpow_swap1)
qed

text \<open>
  Claim C5, as the code has it. When none of the 50 turns meets the tolerance, the function
  returns the residuals of the 50th turn and the R-squared computed from them; it does not
  fail, the returned value holds nothing else, and no warning is shown.
\<close>

theorem cap_reached_returns_last_pass:
  assumes "switches \<noteq> []"
    and "\<not> left_by_break 50 (map occ_origin switches) (map occ_dest switches)
           (map log_switch_share switches)"
  shows "step1_ols_residualize switches =
     Inr (with_residual switches
            ((demean_pass (map occ_origin switches) (map occ_dest switches) ^^ 50)
               (map log_switch_share switches)),
          r2_fe (map log_switch_share switches)
            ((demean_pass (map occ_origin switches) (map occ_dest switches) ^^ 50)
               (map log_switch_share switches)))
     \<and> shown_warnings (step1_issued_warnings switches) = []"
proof -
  have "iterate_demean 50 (map occ_origin switches) (map occ_dest switches)
      (map log_switch_share switches)
    = Inr ((demean_pass (map occ_origin switches) (map occ_dest switches) ^^ 50)
      (map log_switch_share switches))"
    using assms by (intro iterate_not_left) simp_all
  then show ?thesis by (simp add: step1_ols_residualize_def shown_warnings_def Let_def)
qed

lemma slow_table_columns:
  "map occ_origin slow_table = [1, 2, 2, 3, 3, 4]"
  "map occ_dest slow_table = [10, 10, 20, 20, 30, 30]"
  "map log_switch_share slow_table = [- 4, - 2, - 5, - 1, - 4, - 2]"
  by (simp_all add: slow_table_def pair_with_log_def)

lemma slow_table_loop:
  "iterate_demean 50 [1, 2, 2, 3, 3, 4] [10, 10, 20, 20, 30, 30] [- 4, - 2, - 5, - 1, - 4, - 2]
     = Inr (slow_mode ((3 / 4) ^ 50))
   \<and> \<not> left_by_break 50 [1, 2, 2, 3, 3, 4] [10, 10, 20, 20, 30, 30] [- 4, - 2, - 5, - 1, - 4, - 2]"
proof -
  have "(2::real) / 10 ^ 10 \<le> 3 / 4 * (3 / 4) ^ 49" by (simp add: power_divide)
  from slow_mode_iterate [OF this] have rest:
    "iterate_demean 49 [1, 2, 2, 3, 3, 4] [10, 10, 20, 20, 30, 30] (slow_mode (3 / 4))
       = Inr (slow_mode ((3 / 4) ^ 49 * (3 / 4)))"
    "\<not> left_by_break 49 [1, 2, 2, 3, 3, 4] [10, 10, 20, 20, 30, 30] (slow_mode (3 / 4))"
    by simp_all
  have big: "\<not> (7 / 2 :: real) < 1 / 10 ^ 10" by simp
  have first:
    "iterate_demean (Suc 49) [1, 2, 2, 3, 3, 4] [10, 10, 20, 20, 30, 30] [- 4, - 2, - 5, - 1, - 4, - 2]
       = Inr (slow_mode ((3 / 4) ^ 49 * (3 / 4)))
     \<and> \<not> left_by_break (Suc 49) [1, 2, 2, 3, 3, 4] [10, 10, 20, 20, 30, 30]
          [- 4, - 2, - 5, - 1, - 4, - 2]"
    unfolding iterate_demean.simps left_by_break.simps Let_def slow_first_pass slow_first_change
      sum.case rest(1)
    using big rest(2) by (simp only: if_False simp_thms)
  have n: "Suc 49 = 50" by simp
  have p: "(3 / 4 :: real) ^ 49 * (3 / 4) = (3 / 4) ^ 50"
    using power_Suc2 [of "3 / 4 :: real" 49] by (simp only: n)
  from first show ?thesis unfolding n p .
qed

text \<open>
  Against claim C5 as stated: on the path table the cap is reached without the tolerance
  being met; the function returns the table with the residuals of the last turn and the
  R-squared, and shows no warning.
\<close>

theorem convergence_warning_counterexample:
  "\<not> left_by_break 50 (map occ_origin slow_table) (map occ_dest slow_table)
        (map log_switch_share slow_table)
   \<and> step1_ols_residualize slow_table =
       Inr (with_residual slow_table (slow_mode ((3 / 4) ^ 50)),
            r2_fe (map log_switch_share slow_table) (slow_mode ((3 / 4) ^ 50)))
   \<and> shown_warnings (step1_issued_warnings slow_table) = []"
  using slow_table_loop
  by (simp add: slow_table_columns step1_ols_residualize_def shown_warnings_def)

theorem cap_reached_returns_last_pass_witness:
  "\<not> left_by_break 50 (map occ_origin slow_table) (map occ_dest slow_table)
        (map log_switch_share slow_table)
   \<and> step1_ols_residualize slow_table =
     Inr (with_residual slow_table
            ((demean_pass (map occ_origin slow_table) (map occ_dest slow_table) ^^ 50)
               (map log_switch_share slow_table)),
          r2_fe (map log_switch_share slow_table)
            ((demean_pass (map occ_origin slow_table) (map occ_dest slow_table) ^^ 50)
               (map log_switch_share slow_table)))
   \<and> shown_warnings (step1_issued_warnings slow_table) = []"
proof -
  have ne: "slow_table \<noteq> []" by (simp add: slow_table_def)
  have nb: "\<not> left_by_break 50 (map occ_origin slow_table) (map occ_dest slow_table)
        (map log_switch_share slow_table)"
    using slow_table_loop by (simp add: slow_table_columns)
  from cap_reached_returns_last_pass [OF ne nb] nb show ?thesis by blast
qed

subsection \<open>Tables of paired rows\<close>

lemma pairs_of_0 [simp]: "pairs_of a b 0 = []"
  by (simp add: pairs_of_def)

lemma pairs_of_Suc: "pairs_of a b (Suc n) = pairs_of a b n @ [a n, b n]"
  by (simp add: pairs_of_def)

lemma length_pairs_of [simp]: "length (pairs_of a b n) = 2 * n"
  by (induction n) (simp_all add: pairs_of_Suc)





lemma pairs_of_eq_Nil [simp]: "pairs_of a b n = [] \<longleftrightarrow> n = 0"
  by (cases n) (simp_all add: pairs_of_Suc)








subsection \<open>One turn on the long path\<close>













subsection \<open>Group means when the tolerance is met\<close>










section \<open>The aggregator\<close>

lemmas agg_defs = compute_aggregate_portability_def port_table_def min_max_norm_def sort_values_def
  agg_table_def agg_port_def agg_entry_def weigh_def weigh_step_def emp_get_def emp_map_def
  group_of_def origins_of_def mean_port_def pd_mean_def with_titles_def printed_rows_def
  scored_row.extend_def port_row.fields_def Let_def


text \<open>
  Claim C4 on the code. When all predictions are equal, line 220 divides zero by zero:
  every normalized score is NaN, not 0, and so are the aggregate and the unweighted mean
  of the origin.
\<close>

theorem degenerate_range_yields_nan:
  "compute_aggregate_portability ex_flat ex_emp ex_titles =
     Inr ([\<lparr>occ2010 = 1, aggregate_portability = NaN, mean_pairwise_portability = NaN,
             title = Some ''Chief executives''\<rparr>],
          [\<lparr>occ_origin = 1, occ_dest = 2, predicted_skill_portability = 3 / 10,
             portability_norm = NaN\<rparr>,
           \<lparr>occ_origin = 1, occ_dest = 3, predicted_skill_portability = 3 / 10,
             portability_norm = NaN\<rparr>])"
  by (simp add: agg_defs ex_flat_def ex_emp_def ex_titles_def)

text \<open>
  Against claim C9 as stated: origin 4 has no destination with employment data; the
  function returns the aggregate table without any row for it, and nothing in the
  returned value reports it as excluded.
\<close>

theorem excluded_origin_counterexample:
  "compute_aggregate_portability ex_scored ex_emp ex_titles =
     Inr ([\<lparr>occ2010 = 1, aggregate_portability = Fin (1 / 6),
             mean_pairwise_portability = Fin (1 / 2), title = Some ''Chief executives''\<rparr>],
          [\<lparr>occ_origin = 1, occ_dest = 2, predicted_skill_portability = 1 / 5,
             portability_norm = Fin 0\<rparr>,
           \<lparr>occ_origin = 1, occ_dest = 3, predicted_skill_portability = 7 / 10,
             portability_norm = Fin 1\<rparr>,
           \<lparr>occ_origin = 4, occ_dest = 5, predicted_skill_portability = 1 / 2,
             portability_norm = Fin (3 / 5)\<rparr>])"
  by (simp add: agg_defs ex_scored_def ex_emp_def ex_titles_def)

lemma agg_entry_key: "agg_entry emp port c = Some (c', a) \<Longrightarrow> c' = c"
  by (auto simp: agg_entry_def Let_def split: prod.splits if_splits)

lemma agg_port_member:
  "(c, a) \<in> set (agg_port emp port) \<longleftrightarrow> c \<in> set (map occ_origin port) \<and> agg_entry emp port c = Some (c, a)"
  by (auto simp: agg_port_def set_map_filter origins_of_def dest: agg_entry_key)

lemma occ2010_with_titles: "r \<in> set (with_titles titles (c, a, m)) \<Longrightarrow> occ2010 r = c \<and> aggregate_portability r = a"
  by (auto simp: with_titles_def split: list.splits)

lemma agg_table_member:
  assumes "r \<in> set (agg_table emp titles port)"
  shows "(occ2010 r, aggregate_portability r) \<in> set (agg_port emp port)"
  using assms by (auto simp: agg_table_def dest!: occ2010_with_titles)

text \<open>
  Claim C9, as the code has it. An origin whose total destination employment weight is not
  positive has no row in the aggregate table that the function returns.
\<close>

theorem excluded_origin_absent:
  assumes "compute_aggregate_portability switches emp titles = Inr (agg_df, port)"
    and "\<not> 0 < snd (weigh emp (group_of port occ_o))"
  shows "occ_o \<notin> occ2010 ` set agg_df"
proof
  assume "occ_o \<in> occ2010 ` set agg_df"
  then obtain r where r: "r \<in> set agg_df" "occ2010 r = occ_o" by auto
  from assms(1) have port: "port = port_table switches"
    and df: "agg_df = sort_values (agg_table emp titles port)"
    by (auto simp: compute_aggregate_portability_def Let_def split: if_splits)
  from r df have "r \<in> set (agg_table emp titles port)" by (simp add: sort_values_def)
  from agg_table_member [OF this] r(2)
  have "agg_entry emp port occ_o = Some (occ_o, aggregate_portability r)"
    by (simp add: agg_port_member)
  with assms(2) show False
    by (auto simp: agg_entry_def Let_def split: prod.splits if_splits)
qed

theorem excluded_origin_absent_witness:
  "\<not> 0 < snd (weigh ex_emp (group_of (port_table ex_scored) 4))
   \<and> 4 \<in> occ_origin ` set (port_table ex_scored)
   \<and> 4 \<notin> occ2010 ` set (fst (projr (compute_aggregate_portability ex_scored ex_emp ex_titles)))"
proof -
  have c: "compute_aggregate_portability ex_scored ex_emp ex_titles =
      Inr (fst (projr (compute_aggregate_portability ex_scored ex_emp ex_titles)), port_table ex_scored)"
    by (simp add: agg_defs ex_scored_def ex_emp_def ex_titles_def)
  have w: "\<not> 0 < snd (weigh ex_emp (group_of (port_table ex_scored) 4))"
    by (simp add: agg_defs ex_scored_def ex_emp_def)
  have "4 \<in> occ_origin ` set (port_table ex_scored)"
    by (simp add: agg_defs ex_scored_def)
  with excluded_origin_absent [OF c w] w show ?thesis by simp
qed




















end
